theory Spec2Isabelle
  imports Complex_Main "HOL-Library.Sublist" "HOL-Library.Log_Nat"
begin

section \<open>Errors\<close>

text \<open>
  The exceptions the two scripts can raise, as values. A step that can raise returns
  \<open>error + 'a\<close>, with \<open>Inl\<close> for the exception.
\<close>

datatype error =
    TypeError
  | IndexError
  | ValueError
  | KeyError
  | AttributeError
  | FileNotFoundError
  | FileExistsError
  | IsADirectoryError
  | ConnectionFailed
  | DatabaseError

section \<open>Timestamps\<close>

text \<open>
  A datetime column of a DataFrame has one dtype for all its rows: timezone-naive
  (\<open>dt_tz = None\<close>) or timezone-aware in one zone. As pandas does, a naive column stores
  wall-clock readings and an aware column stores UTC instants; both are counted here in
  whole seconds since 1970-01-01 00:00:00 (MySQL's DATETIME has second resolution, and the
  format \<open>%Y-%m-%d %H:%M:%S\<close> prints nothing finer).
\<close>

datatype tzinfo = UTC | Asia_Shanghai

text \<open>
  Modelled from the spec: the time-zone table behind \<open>pytz.timezone('Asia/Shanghai')\<close> is
  not part of the repository; the specification gives the zone as UTC+8 with no
  daylight-saving adjustment, so its offset is the constant 8 hours.
\<close>

fun utcoffset :: "tzinfo \<Rightarrow> int" where
  "utcoffset UTC = 0"
| "utcoffset Asia_Shanghai = 8 * 3600"

record dt_series =
  dt_tz :: "tzinfo option"
  dt_stamps :: "int list"

definition tz_shift :: "tzinfo option \<Rightarrow> int" where
  "tz_shift z = (case z of None \<Rightarrow> 0 | Some t \<Rightarrow> utcoffset t)"

text \<open>The wall-clock reading of every row, in the column's own zone.\<close>

definition wall_clock :: "dt_series \<Rightarrow> int list" where
  "wall_clock s = map (\<lambda>t. t + tz_shift (dt_tz s)) (dt_stamps s)"

text \<open>
  \<open>Series.dt.tz_localize(tz)\<close> reads a naive column as wall-clock time in \<open>tz\<close> and raises
  TypeError on a column that is already aware; \<open>Series.dt.tz_convert(tz)\<close> keeps the
  instants of an aware column and changes its zone, and raises TypeError on a naive one.
\<close>

definition tz_localize :: "tzinfo \<Rightarrow> dt_series \<Rightarrow> error + dt_series" where
  "tz_localize z s =
     (case dt_tz s of
        None \<Rightarrow> Inr \<lparr>dt_tz = Some z, dt_stamps = map (\<lambda>w. w - utcoffset z) (dt_stamps s)\<rparr>
      | Some _ \<Rightarrow> Inl TypeError)"

definition tz_convert :: "tzinfo \<Rightarrow> dt_series \<Rightarrow> error + dt_series" where
  "tz_convert z s =
     (case dt_tz s of
        None \<Rightarrow> Inl TypeError
      | Some _ \<Rightarrow> Inr (s\<lparr>dt_tz := Some z\<rparr>))"

subsection \<open>Calendar arithmetic and \<open>strftime\<close>\<close>

text \<open>
  The proleptic Gregorian calendar, as Python's \<open>datetime\<close> uses it: the day number of a
  civil date (days since 1970-01-01) and back. Integer division rounds down, as in Python.
\<close>

definition days_from_civil :: "int \<Rightarrow> int \<Rightarrow> int \<Rightarrow> int" where
  "days_from_civil y m d =
     (let y' = (if m \<le> 2 then y - 1 else y);
          era = y' div 400;
          yoe = y' - era * 400;
          doy = (153 * (if 2 < m then m - 3 else m + 9) + 2) div 5 + d - 1;
          doe = yoe * 365 + yoe div 4 - yoe div 100 + doy
      in era * 146097 + doe - 719468)"

definition civil_from_days :: "int \<Rightarrow> int \<times> int \<times> int" where
  "civil_from_days z0 =
     (let z = z0 + 719468;
          era = z div 146097;
          doe = z - era * 146097;
          yoe = (doe - doe div 1460 + doe div 36524 - doe div 146096) div 365;
          y = yoe + era * 400;
          doy = doe - (365 * yoe + yoe div 4 - yoe div 100);
          mp = (5 * doy + 2) div 153;
          d = doy - (153 * mp + 2) div 5 + 1;
          m = (if mp < 10 then mp + 3 else mp - 9)
      in (if m \<le> 2 then y + 1 else y, m, d))"

text \<open>The naive reading \<open>datetime(y, m, d, hh, mi, ss)\<close> in seconds.\<close>

definition datetime :: "int \<Rightarrow> int \<Rightarrow> int \<Rightarrow> int \<Rightarrow> int \<Rightarrow> int \<Rightarrow> int" where
  "datetime y m d hh mi ss = days_from_civil y m d * 86400 + hh * 3600 + mi * 60 + ss"

definition digit :: "int \<Rightarrow> char" where
  "digit n = ''0123456789'' ! nat (n mod 10)"

definition pad2 :: "int \<Rightarrow> string" where
  "pad2 n = [digit (n div 10), digit n]"

definition pad4 :: "int \<Rightarrow> string" where
  "pad4 n = [digit (n div 1000), digit (n div 100), digit (n div 10), digit n]"

text \<open>
  \<open>strftime('%Y-%m-%d %H:%M:%S')\<close> of a wall-clock reading in the years 1000 to 9999, the
  range of a MySQL DATETIME. Outside these years the function is not the library's (past
  9999, which a stored reading of the last eight hours of 9999 reaches after normalization,
  \<open>Timestamp.strftime\<close> raises): nothing below is claimed to succeed on such a reading.
\<close>

definition strftime :: "int \<Rightarrow> string" where
  "strftime w =
     (let days = w div 86400;
          secs = w mod 86400;
          (y, m, d) = civil_from_days days
      in pad4 y @ ''-'' @ pad2 m @ ''-'' @ pad2 d @ '' '' @
         pad2 (secs div 3600) @ '':'' @ pad2 (secs mod 3600 div 60) @ '':'' @ pad2 (secs mod 60))"

section \<open>The Table\<close>

text \<open>
  The DataFrame that \<open>pd.read_sql\<close> returns for \<open>SELECT * FROM material_data\<close>: the
  datetime column \<open>record_date\<close>, and the other columns (the identifier \<open>ID\<close> and the
  metrics) in the order of \<open>df.columns\<close>, each with its name and its values row by row.
  A cell holds the number stored in it, an exact rational (every integer and every finite
  float64 is one); a Table with NULL cells is outside the model. What pandas and \<open>float()\<close>
  compute from the cells in float64 is kept apart, see the summary aggregator.
\<close>

record dataframe =
  record_date :: dt_series
  columns :: "(string \<times> rat list) list"

definition nrows :: "dataframe \<Rightarrow> nat" where
  "nrows df = length (dt_stamps (record_date df))"

text \<open>
  What every DataFrame of a single-table \<open>SELECT *\<close> satisfies: the column names are
  distinct, none is \<open>record_date\<close> again, and every column has one value per row.
\<close>

definition wf_frame :: "dataframe \<Rightarrow> bool" where
  "wf_frame df =
     (distinct (map fst (columns df)) \<and>
      ''record_date'' \<notin> set (map fst (columns df)) \<and>
      list_all (\<lambda>cv. length (snd cv) = nrows df) (columns df))"

text \<open>\<open>column not in ['ID', 'record_date']\<close>\<close>

definition is_metric :: "string \<Rightarrow> bool" where
  "is_metric c = (c \<notin> set [''ID'', ''record_date''])"

section \<open>Normalizer\<close>

text \<open>
  \<open>convert_to_china_timezone\<close>: \<open>pd.to_datetime\<close> leaves a datetime column as it is; the
  column is then localized to UTC and converted to Asia/Shanghai. The assignment to
  \<open>df['record_date']\<close> happens only when neither call raised.
\<close>

definition convert_to_china_timezone :: "dataframe \<Rightarrow> error + dataframe" where
  "convert_to_china_timezone df =
     (case tz_localize UTC (record_date df) of
        Inl e \<Rightarrow> Inl e
      | Inr s \<Rightarrow>
          (case tz_convert Asia_Shanghai s of
             Inl e \<Rightarrow> Inl e
           | Inr s' \<Rightarrow> Inr (df\<lparr>record_date := s'\<rparr>)))"

section \<open>Transformers\<close>

subsection \<open>Historical-metrics reshaper\<close>

text \<open>
  A value of the \<open>metrics\<close> dictionary: the list of a metric column's values, or the list
  of formatted timestamps. The dictionary is a map from keys to such lists; an assignment
  to a key that is present replaces its value.
\<close>

datatype series = Values "rat list" | Stamps "string list"

fun series_len :: "series \<Rightarrow> nat" where
  "series_len (Values xs) = length xs"
| "series_len (Stamps xs) = length xs"

type_synonym metrics = "string \<rightharpoonup> series"

text \<open>The loop \<open>for column in df.columns\<close> of \<open>process_historical_metrics\<close>.\<close>

fun metrics_loop :: "(string \<times> rat list) list \<Rightarrow> metrics \<Rightarrow> metrics" where
  "metrics_loop [] m = m"
| "metrics_loop ((c, vs) # cs) m =
     metrics_loop cs (if is_metric c then m(c \<mapsto> Values vs) else m)"

definition process_historical_metrics :: "dataframe \<Rightarrow> metrics" where
  "process_historical_metrics df =
     (metrics_loop (columns df) Map.empty)
       (''timestamps'' \<mapsto> Stamps (map strftime (wall_clock (record_date df))))"

subsection \<open>Latest-record extractor\<close>

text \<open>
  A cell of a row dictionary: a number, a string, or a Timestamp object (its wall-clock
  reading) that has not been formatted yet.
\<close>

datatype scalar = Num rat | Str string | Timestamp int

type_synonym row_dict = "string \<rightharpoonup> scalar"

text \<open>
  Row \<open>i\<close> of the frame as a dictionary keyed by column name (the names of a well-formed
  frame are distinct, so each key has one cell).
\<close>

definition row_dict_at :: "dataframe \<Rightarrow> nat \<Rightarrow> row_dict" where
  "row_dict_at df i =
     (map_of (map (\<lambda>cv. (fst cv, Num (snd cv ! i))) (columns df)))
       (''record_date'' \<mapsto> Timestamp (wall_clock (record_date df) ! i))"

text \<open>\<open>df.iloc[0].to_dict()\<close>: the first row; IndexError on a frame with no rows.\<close>

definition iloc0 :: "dataframe \<Rightarrow> error + row_dict" where
  "iloc0 df = (if nrows df = 0 then Inl IndexError else Inr (row_dict_at df 0))"

definition process_latest_data :: "dataframe \<Rightarrow> error + row_dict" where
  "process_latest_data df =
     (case iloc0 df of
        Inl e \<Rightarrow> Inl e
      | Inr latest_data \<Rightarrow>
          (case latest_data ''record_date'' of
             None \<Rightarrow> Inl KeyError
           | Some (Timestamp t) \<Rightarrow> Inr (latest_data(''record_date'' \<mapsto> Str (strftime t)))
           | Some _ \<Rightarrow> Inl AttributeError))"

subsection \<open>Summary aggregator\<close>

record col_summary =
  cs_max :: rat
  cs_min :: rat
  cs_avg :: rat
  cs_current :: rat

record summary =
  last_update :: string
  total_records :: nat
  metrics_summary :: "string \<rightharpoonup> col_summary"

text \<open>
  The float64 arithmetic behind the aggregator belongs to the interpreter and to pandas,
  not to the repository, so it is a parameter: \<open>to_float x\<close> is \<open>float(x)\<close>, the float64
  nearest to the number \<open>x\<close>, and \<open>mean64 xs\<close> is \<open>Series.mean()\<close> of a column with the
  cells \<open>xs\<close>, whatever the order in which the library sums them.
\<close>

record float_ops =
  to_float :: "rat \<Rightarrow> rat"
  mean64 :: "rat list \<Rightarrow> rat"

text \<open>
  \<open>Series.max()\<close> and \<open>Series.min()\<close> of a column with at least one row
  (\<open>process_summary\<close> has raised before it reaches them on a frame with none): they select
  a cell and round nothing.
\<close>

definition series_max :: "'a::linorder list \<Rightarrow> 'a" where
  "series_max xs = fold max (tl xs) (hd xs)"

definition series_min :: "'a::linorder list \<Rightarrow> 'a" where
  "series_min xs = fold min (tl xs) (hd xs)"

text \<open>
  The dictionary of one column: \<open>float(df[column].max())\<close>, \<open>float(df[column].min())\<close>,
  \<open>float(df[column].mean())\<close> and \<open>float(df.iloc[0][column])\<close>.
\<close>

definition summarize :: "float_ops \<Rightarrow> rat list \<Rightarrow> col_summary" where
  "summarize ops vs =
     \<lparr>cs_max = to_float ops (series_max vs), cs_min = to_float ops (series_min vs),
      cs_avg = to_float ops (mean64 ops vs), cs_current = to_float ops (vs ! 0)\<rparr>"

text \<open>The loop \<open>for column in df.columns\<close> of \<open>process_summary\<close>.\<close>

fun summary_loop ::
  "float_ops \<Rightarrow> (string \<times> rat list) list \<Rightarrow> (string \<rightharpoonup> col_summary) \<Rightarrow>
   (string \<rightharpoonup> col_summary)" where
  "summary_loop ops [] m = m"
| "summary_loop ops ((c, vs) # cs) m =
     summary_loop ops cs (if is_metric c then m(c \<mapsto> summarize ops vs) else m)"

text \<open>
  On a frame with no rows \<open>df['record_date'].max()\<close> is NaT, whose \<open>strftime\<close> raises
  ValueError before anything else is computed.
\<close>

definition process_summary :: "float_ops \<Rightarrow> dataframe \<Rightarrow> error + summary" where
  "process_summary ops df =
     (if nrows df = 0 then Inl ValueError
      else Inr \<lparr>last_update = strftime (series_max (wall_clock (record_date df))),
                total_records = nrows df,
                metrics_summary = summary_loop ops (columns df) Map.empty\<rparr>)"

subsection \<open>Windowed-cache builder\<close>

text \<open>
  The comparison \<open>df['record_date'] >= now - delta\<close> against the timezone-aware \<open>now\<close>: it
  compares instants, and raises TypeError when the column is naive.
\<close>

definition ge_mask :: "int \<Rightarrow> dt_series \<Rightarrow> error + bool list" where
  "ge_mask cutoff s =
     (case dt_tz s of
        None \<Rightarrow> Inl TypeError
      | Some _ \<Rightarrow> Inr (map (\<lambda>t. cutoff \<le> t) (dt_stamps s)))"

text \<open>Selection of the rows of a column by a boolean mask.\<close>

fun compress :: "bool list \<Rightarrow> 'a list \<Rightarrow> 'a list" where
  "compress (b # bs) (x # xs) = (if b then x # compress bs xs else compress bs xs)"
| "compress _ _ = []"

definition select_rows :: "bool list \<Rightarrow> dataframe \<Rightarrow> dataframe" where
  "select_rows sel df =
     \<lparr>record_date = (record_date df)\<lparr>dt_stamps := compress sel (dt_stamps (record_date df))\<rparr>,
      columns = map (\<lambda>cv. (fst cv, compress sel (snd cv))) (columns df)\<rparr>"

text \<open>\<open>df[df['record_date'] >= now - delta]\<close>, with \<open>delta\<close> in seconds.\<close>

definition last_window :: "int \<Rightarrow> int \<Rightarrow> dataframe \<Rightarrow> error + dataframe" where
  "last_window now delta df =
     (case ge_mask (now - delta) (record_date df) of
        Inl e \<Rightarrow> Inl e
      | Inr sel \<Rightarrow> Inr (select_rows sel df))"

section \<open>The world of a run\<close>

text \<open>
  What a run reads and changes outside its own variables: the system clock (the instant
  it shows, in seconds), the database (whether it can be reached, and the rows of
  \<open>material_data\<close> as stored, with naive timestamps; \<open>None\<close> when the table is missing), the
  state of the connection, and the file system below the working directory (a path is its
  list of components). The clock is read in whole seconds: the timestamps of the rows are
  whole seconds, so a reading between two seconds selects the rows that the next whole
  second selects. Console output, credentials and permission or disk-space failures are
  not modelled.
\<close>

datatype conn_state = Unopened | Opened | Closed

datatype payload =
    LatestDoc row_dict
  | MetricsDoc metrics
  | SummaryDoc summary
  | MetadataDoc int nat

text \<open>
  The encoder behind \<open>json.dump\<close> is the standard library's and is not modelled: a file it
  has written is kept as the call that wrote it, that is the encoding the file was opened
  with, the options of the call and the structure that was serialized. A file that was
  opened for writing and then left by an exception holds some initial part of the output.
\<close>

record json_file =
  jf_encoding :: string
  jf_ensure_ascii :: bool
  jf_indent :: nat
  jf_default_str :: bool
  jf_data :: payload

datatype file_content = Partial | Dumped json_file

text \<open>
  What \<open>json.dump\<close> can serialize: numbers and strings always (the numbers of a row
  dictionary are native ones, as \<open>to_dict\<close> returns them), a Timestamp object only through
  \<open>default=str\<close>.
\<close>

fun serializable :: "bool \<Rightarrow> payload \<Rightarrow> bool" where
  "serializable dflt (LatestDoc d) = (if dflt then True else (\<forall>k t. d k \<noteq> Some (Timestamp t)))"
| "serializable dflt (MetricsDoc m) = True"
| "serializable dflt (SummaryDoc sm) = True"
| "serializable dflt (MetadataDoc t n) = True"

type_synonym path = "string list"

record world =
  clock :: int
  db_reachable :: bool
  db_table :: "dataframe option"
  conn :: conn_state
  dirs :: "path set"
  files :: "path \<rightharpoonup> file_content"

type_synonym 'a io = "world \<Rightarrow> (error + 'a) \<times> world"

text \<open>Sequencing: an exception ends the rest of the block, the world stays as it was left.\<close>

definition bind_io :: "'a io \<Rightarrow> ('a \<Rightarrow> 'b io) \<Rightarrow> 'b io" where
  "bind_io m f w = (case m w of (Inl e, w') \<Rightarrow> (Inl e, w') | (Inr x, w') \<Rightarrow> f x w')"

definition lift_io :: "error + 'a \<Rightarrow> 'a io" where
  "lift_io r w = (r, w)"

subsection \<open>Windowed-cache builder, continued\<close>

text \<open>\<open>pd.Timestamp.now(pytz.timezone('Asia/Shanghai'))\<close>: the instant the clock shows.\<close>

definition timestamp_now :: "world \<Rightarrow> int" where
  "timestamp_now w = clock w"

definition process_cached_data :: "world \<Rightarrow> dataframe \<Rightarrow> error + (metrics \<times> metrics)" where
  "process_cached_data w df =
     (let now = timestamp_now w in
      case last_window now (24 * 3600) df of
        Inl e \<Rightarrow> Inl e
      | Inr last_24h \<Rightarrow>
          (let hour_24_data = process_historical_metrics last_24h in
           case last_window now (30 * 86400) df of
             Inl e \<Rightarrow> Inl e
           | Inr last_30d \<Rightarrow>
               (let day_30_data = process_historical_metrics last_30d
                in Inr (hour_24_data, day_30_data))))"

subsection \<open>Files\<close>

text \<open>The working directory always exists; any other directory exists when it is listed.\<close>

definition dir_exists :: "world \<Rightarrow> path \<Rightarrow> bool" where
  "dir_exists w p = (p = [] \<or> p \<in> dirs w)"

text \<open>
  \<open>os.makedirs(p, exist_ok=True)\<close>: creates \<open>p\<close> and every missing ancestor; fails when a
  file stands where a directory is needed (FileExistsError for \<open>p\<close> itself; the
  NotADirectoryError that an ancestor gives is not told apart from it).
\<close>

definition makedirs :: "path \<Rightarrow> unit io" where
  "makedirs p w =
     (if list_ex (\<lambda>q. q \<in> dom (files w)) (prefixes p) then (Inl FileExistsError, w)
      else (Inr (), w\<lparr>dirs := dirs w \<union> set (prefixes p)\<rparr>))"

text \<open>
  \<open>open(filename, 'w', encoding='utf-8')\<close> followed by \<open>json.dump\<close> into the file. The
  open fails on a directory and when the parent directory is missing, and creates no
  directory; once it has succeeded the file exists, and a structure that \<open>json.dump\<close>
  cannot serialize ends the call with TypeError and leaves the file partly written.
\<close>

definition write_json :: "bool \<Rightarrow> nat \<Rightarrow> bool \<Rightarrow> payload \<Rightarrow> path \<Rightarrow> unit io" where
  "write_json ascii ind dflt data filename w =
     (if dir_exists w filename then (Inl IsADirectoryError, w)
      else if dir_exists w (butlast filename) then
        (if serializable dflt data then
           (Inr (), w\<lparr>files := (files w)(filename \<mapsto> Dumped
              \<lparr>jf_encoding = ''utf-8'', jf_ensure_ascii = ascii, jf_indent = ind,
               jf_default_str = dflt, jf_data = data\<rparr>)\<rparr>)
         else (Inl TypeError, w\<lparr>files := (files w)(filename \<mapsto> Partial)\<rparr>))
      else (Inl FileNotFoundError, w))"

text \<open>\<open>save_json\<close>: \<open>json.dump(data, f, ensure_ascii=False, indent=2)\<close>.\<close>

definition save_json :: "payload \<Rightarrow> path \<Rightarrow> unit io" where
  "save_json data filename = write_json False 2 False data filename"

subsection \<open>The database\<close>

text \<open>
  \<open>ORDER BY record_date DESC\<close>: the rows are permuted so that the timestamps fall; rows with
  equal timestamps keep their stored order.
\<close>

definition order_desc :: "int list \<Rightarrow> nat list" where
  "order_desc ts = sort_key (\<lambda>i. - (ts ! i)) [0 ..< length ts]"

definition take_rows :: "nat list \<Rightarrow> dataframe \<Rightarrow> dataframe" where
  "take_rows idx df =
     \<lparr>record_date = (record_date df)\<lparr>dt_stamps := map (\<lambda>i. dt_stamps (record_date df) ! i) idx\<rparr>,
      columns = map (\<lambda>cv. (fst cv, map (\<lambda>i. snd cv ! i) idx)) (columns df)\<rparr>"

definition order_by_record_date_desc :: "dataframe \<Rightarrow> dataframe" where
  "order_by_record_date_desc df = take_rows (order_desc (dt_stamps (record_date df))) df"

text \<open>
  \<open>pd.read_sql(query, connection)\<close> with the query of the full-history job (every row) and
  of the latest-only job (\<open>LIMIT 1\<close>). It fails on a connection that is not open and on a
  missing table.
\<close>

definition read_sql :: "nat option \<Rightarrow> dataframe io" where
  "read_sql row_limit w =
     (if conn w = Opened then
        (case db_table w of
           None \<Rightarrow> (Inl DatabaseError, w)
         | Some t \<Rightarrow>
             (let idx = order_desc (dt_stamps (record_date t))
              in (Inr (take_rows (case row_limit of None \<Rightarrow> idx | Some n \<Rightarrow> take n idx) t), w)))
      else (Inl DatabaseError, w))"

definition read_sql_all :: "dataframe io" where
  "read_sql_all = read_sql None"

definition read_sql_limit_1 :: "dataframe io" where
  "read_sql_limit_1 = read_sql (Some 1)"

section \<open>The full-history job (update_data.py)\<close>

definition connect_to_database :: "unit io" where
  "connect_to_database w =
     (if db_reachable w then (Inr (), w\<lparr>conn := Opened\<rparr>) else (Inl ConnectionFailed, w))"

definition connection_close :: "unit io" where
  "connection_close w = (Inr (), w\<lparr>conn := Closed\<rparr>)"

text \<open>
  \<open>fetch_data\<close>: the connection is made outside the \<open>try\<close>; the \<open>finally\<close> clause closes it
  whether the query and the conversion returned or raised.
\<close>

definition fetch_data :: "dataframe io" where
  "fetch_data w =
     (case connect_to_database w of
        (Inl e, w1) \<Rightarrow> (Inl e, w1)
      | (Inr _, w1) \<Rightarrow>
          (case bind_io read_sql_all (\<lambda>df. lift_io (convert_to_china_timezone df)) w1 of
             (r, w2) \<Rightarrow> (r, snd (connection_close w2))))"

text \<open>\<open>main\<close>: the \<open>except\<close> clause prints the exception and raises it again.\<close>

definition main_update :: "float_ops \<Rightarrow> unit io" where
  "main_update ops =
     bind_io fetch_data (\<lambda>df.
     bind_io (makedirs [''data'', ''historical'', ''archived'']) (\<lambda>_.
     bind_io (makedirs [''data'', ''cache'']) (\<lambda>_.
     bind_io (lift_io (process_latest_data df)) (\<lambda>latest_data.
     bind_io (save_json (LatestDoc latest_data) [''data'', ''latest.json'']) (\<lambda>_.
     bind_io (lift_io (Inr (process_historical_metrics df))) (\<lambda>metrics_data.
     bind_io (save_json (MetricsDoc metrics_data) [''data'', ''historical'', ''metrics.json'']) (\<lambda>_.
     bind_io (lift_io (process_summary ops df)) (\<lambda>summary_data.
     bind_io (save_json (SummaryDoc summary_data) [''data'', ''historical'', ''summary.json'']) (\<lambda>_.
     bind_io (\<lambda>w. (process_cached_data w df, w)) (\<lambda>cached.
     bind_io (save_json (MetricsDoc (fst cached)) [''data'', ''cache'', ''hour-24.json'']) (\<lambda>_.
     save_json (MetricsDoc (snd cached)) [''data'', ''cache'', ''day-30.json''])))))))))))"

section \<open>The latest-only job (collect_data.py)\<close>

definition get_database_connection :: "unit io" where
  "get_database_connection w =
     (if db_reachable w then (Inr (), w\<lparr>conn := Opened\<rparr>) else (Inl ConnectionFailed, w))"

text \<open>\<open>df.to_dict('records')\<close>: one dictionary per row.\<close>

definition to_dict_records :: "dataframe \<Rightarrow> row_dict list" where
  "to_dict_records df = map (row_dict_at df) [0 ..< nrows df]"

definition first_item :: "'a list \<Rightarrow> error + 'a" where
  "first_item xs = (case xs of [] \<Rightarrow> Inl IndexError | x # _ \<Rightarrow> Inr x)"

text \<open>
  \<open>main\<close>: no \<open>try\<close> surrounds the steps, and \<open>conn.close()\<close> is the last statement. The
  files are written with \<open>json.dump(..., indent=2)\<close>, the first with \<open>default=str\<close>;
  \<open>ensure_ascii\<close> keeps its default, True. The metadata holds the clock reading (its
  rendering by \<open>isoformat\<close> is not modelled) and the constant 1.
\<close>

definition main_collect :: "unit io" where
  "main_collect =
     bind_io get_database_connection (\<lambda>_.
     bind_io read_sql_limit_1 (\<lambda>df.
     bind_io (lift_io (first_item (to_dict_records df))) (\<lambda>latest_data.
     bind_io (write_json True 2 True (LatestDoc latest_data) [''data'', ''latest.json'']) (\<lambda>_.
     bind_io (\<lambda>w. (Inr (MetadataDoc (clock w) 1), w)) (\<lambda>metadata.
     bind_io (write_json True 2 False metadata [''data'', ''metadata.json'']) (\<lambda>_.
     connection_close))))))"

section \<open>Comparing outputs\<close>

text \<open>One sequence of a \<open>metrics\<close> dictionary is an initial segment of another.\<close>

fun series_prefix :: "series \<Rightarrow> series \<Rightarrow> bool" where
  "series_prefix (Values xs) (Values ys) = prefix xs ys"
| "series_prefix (Stamps xs) (Stamps ys) = prefix xs ys"
| "series_prefix _ _ = False"



section \<open>Sample inputs\<close>

text \<open>
  A normalized Table of two rows, newest first, with the identifier and one metric, used
  to exercise the theorems below.
\<close>

definition sample_frame :: dataframe where
  "sample_frame =
     \<lparr>record_date = \<lparr>dt_tz = Some Asia_Shanghai, dt_stamps = [200, 100]\<rparr>,
      columns = [(''ID'', [2, 1]), (''temperature'', [7, 5])]\<rparr>"

text \<open>The same rows as the database stores them, with naive UTC timestamps.\<close>

definition naive_frame :: dataframe where
  "naive_frame =
     \<lparr>record_date = \<lparr>dt_tz = None, dt_stamps = [200, 100]\<rparr>,
      columns = [(''ID'', [2, 1]), (''temperature'', [7, 5])]\<rparr>"

text \<open>
  A world before a run: the clock shows 86550 s (so that 24 hours ago lies between the two
  sample rows), the database is reachable and holds the sample rows, no connection has
  been opened, and the working directory is empty.
\<close>

definition sample_world :: world where
  "sample_world =
     \<lparr>clock = 86550, db_reachable = True, db_table = Some naive_frame, conn = Unopened,
      dirs = {}, files = Map.empty\<rparr>"

text \<open>
  The end-to-end scenario of the specification: three stored rows in ascending order of
  time, with naive UTC timestamps, the identifier and the metric \<open>value\<close>.
\<close>

definition scenario_table :: dataframe where
  "scenario_table =
     \<lparr>record_date = \<lparr>dt_tz = None,
        dt_stamps = [datetime 2024 1 1 0 0 0, datetime 2024 1 1 12 0 0, datetime 2024 1 2 0 0 0]\<rparr>,
      columns = [(''ID'', [1, 2, 3]), (''value'', [10, 20, 30])]\<rparr>"

section \<open>An instance of the float64 parameter\<close>








section \<open>Properties of the reshaper\<close>

text \<open>
  The value the loop leaves under a key depends only on the value the dictionary held
  under that key before, and on the columns of that name.
\<close>

lemma metrics_loop_cong:
  "m k = m' k \<Longrightarrow> metrics_loop cs m k = metrics_loop cs m' k"
proof (induction cs arbitrary: m m')
  case Nil
  then show ?case by simp
next
  case (Cons cv cs)
  obtain c vs where cv: "cv = (c, vs)" by (cases cv)
  have "(if is_metric c then m(c \<mapsto> Values vs) else m) k =
        (if is_metric c then m'(c \<mapsto> Values vs) else m') k"
    using Cons.prems by simp
  then show ?case unfolding cv metrics_loop.simps by (rule Cons.IH)
qed

lemma metrics_loop_miss:
  "k \<notin> fst ` set cs \<Longrightarrow> metrics_loop cs m k = m k"
proof (induction cs arbitrary: m)
  case Nil
  show ?case by simp
next
  case (Cons cv cs)
  obtain c vs where cv: "cv = (c, vs)" by (cases cv)
  from Cons.prems have ne: "c \<noteq> k" and rest: "k \<notin> fst ` set cs" by (auto simp: cv)
  have "metrics_loop (cv # cs) m k = (if is_metric c then m(c \<mapsto> Values vs) else m) k"
    unfolding cv metrics_loop.simps by (rule Cons.IH [OF rest])
  with ne show ?case by simp
qed

lemma metrics_loop_hit:
  "distinct (map fst cs) \<Longrightarrow> (c, vs) \<in> set cs \<Longrightarrow> is_metric c \<Longrightarrow>
   metrics_loop cs m c = Some (Values vs)"
proof (induction cs arbitrary: m)
  case Nil
  then show ?case by simp
next
  case (Cons cv cs)
  obtain c' vs' where cv: "cv = (c', vs')" by (cases cv)
  show ?case
  proof (cases "(c, vs) = cv")
    case True
    then have "c \<notin> fst ` set cs" using Cons.prems(1) by force
    then have "metrics_loop cs (m(c \<mapsto> Values vs)) c = (m(c \<mapsto> Values vs)) c"
      by (rule metrics_loop_miss)
    with True Cons.prems(3) show ?thesis by (simp add: cv)
  next
    case False
    with Cons.prems have "distinct (map fst cs)" and "(c, vs) \<in> set cs" by auto
    then have "metrics_loop cs (if is_metric c' then m(c' \<mapsto> Values vs') else m) c = Some (Values vs)"
      using Cons.prems(3) by (rule Cons.IH)
    then show ?thesis by (simp add: cv)
  qed
qed

lemma metrics_loop_origin:
  "metrics_loop cs m k = Some s \<Longrightarrow> m k = Some s \<or> (\<exists>vs. (k, vs) \<in> set cs \<and> s = Values vs)"
proof (induction cs arbitrary: m)
  case Nil
  then show ?case by simp
next
  case (Cons cv cs)
  obtain c vs where cv: "cv = (c, vs)" by (cases cv)
  from Cons.prems have "metrics_loop cs (if is_metric c then m(c \<mapsto> Values vs) else m) k = Some s"
    by (simp add: cv)
  from Cons.IH [OF this] show ?case
    by (auto simp: cv split: if_splits)
qed

lemma metrics_loop_drop_key:
  "k' \<noteq> k \<Longrightarrow>
   metrics_loop cs m k' = metrics_loop (filter (\<lambda>cv. fst cv \<noteq> k) cs) m k'"
proof (induction cs arbitrary: m)
  case Nil
  show ?case by simp
next
  case (Cons cv cs)
  obtain c vs where cv: "cv = (c, vs)" by (cases cv)
  show ?case
  proof (cases "c = k")
    case True
    have "metrics_loop cs (m(k \<mapsto> Values vs)) k' = metrics_loop cs m k'"
      by (rule metrics_loop_cong) (use Cons.prems in simp)
    then show ?thesis using Cons.IH [OF Cons.prems, of m] True by (simp add: cv)
  next
    case False
    then show ?thesis
      using Cons.IH [OF Cons.prems, of "if is_metric c then m(c \<mapsto> Values vs) else m"]
      by (simp add: cv)
  qed
qed

text \<open>
  C10. When the Table has a metric column literally named \<open>timestamps\<close>, the key
  \<open>timestamps\<close> of the reshaper's output holds the formatted \<open>record_date\<close> strings and not
  that column's values: the final assignment replaces what the loop stored, and the output
  is the one the Table without that column would give.
\<close>

theorem timestamps_key_shadows_column:
  "process_historical_metrics df ''timestamps'' =
     Some (Stamps (map strftime (wall_clock (record_date df)))) \<and>
   process_historical_metrics df ''timestamps'' \<noteq> Some (Values vs) \<and>
   process_historical_metrics df =
     process_historical_metrics
       (df\<lparr>columns := filter (\<lambda>cv. fst cv \<noteq> ''timestamps'') (columns df)\<rparr>)"
proof -
  have "process_historical_metrics df k =
        process_historical_metrics
          (df\<lparr>columns := filter (\<lambda>cv. fst cv \<noteq> ''timestamps'') (columns df)\<rparr>) k" for k
  proof (cases "k = ''timestamps''")
    case True
    then show ?thesis by (simp add: process_historical_metrics_def)
  next
    case False
    then show ?thesis
      using metrics_loop_drop_key [of k "''timestamps''" "columns df" Map.empty]
      by (simp add: process_historical_metrics_def)
  qed
  then have "process_historical_metrics df =
        process_historical_metrics
          (df\<lparr>columns := filter (\<lambda>cv. fst cv \<noteq> ''timestamps'') (columns df)\<rparr>)"
    by (rule ext)
  then show ?thesis by (simp add: process_historical_metrics_def)
qed


text \<open>
  C2. On a well-formed Table (non-empty or not) the \<open>timestamps\<close> sequence has one entry
  per row, the formatted \<open>record_date\<close> values in row order; the entry of every metric
  column is that column's values in row order (or, for a column named \<open>timestamps\<close>, the
  timestamp sequence, see C10); and every sequence of the output has as many entries as
  the Table has rows.
\<close>

theorem reshaper_sequences_aligned:
  assumes wf: "wf_frame df"
    and col: "(c, vs) \<in> set (columns df)"
    and met: "is_metric c"
  shows "process_historical_metrics df ''timestamps'' =
           Some (Stamps (map strftime (wall_clock (record_date df)))) \<and>
         length (map strftime (wall_clock (record_date df))) = nrows df \<and>
         process_historical_metrics df c =
           Some (if c = ''timestamps'' then Stamps (map strftime (wall_clock (record_date df)))
                 else Values vs) \<and>
         length vs = nrows df \<and>
         (\<forall>k s. process_historical_metrics df k = Some s \<longrightarrow> series_len s = nrows df)"
proof -
  let ?ts = "map strftime (wall_clock (record_date df))"
  have len_ts: "length ?ts = nrows df"
    by (simp add: wall_clock_def nrows_def)
  from wf have dist: "distinct (map fst (columns df))"
    and lens: "list_all (\<lambda>cv. length (snd cv) = nrows df) (columns df)"
    by (simp_all add: wf_frame_def)
  from lens col have len_vs: "length vs = nrows df"
    by (auto simp: list_all_iff)
  have hit: "metrics_loop (columns df) Map.empty c = Some (Values vs)"
    using dist col met by (rule metrics_loop_hit)
  have at_c: "process_historical_metrics df c = Some (if c = ''timestamps'' then Stamps ?ts else Values vs)"
    using hit by (simp add: process_historical_metrics_def)
  have all_len: "series_len s = nrows df" if "process_historical_metrics df k = Some s" for k s
  proof (cases "k = ''timestamps''")
    case True
    with that len_ts show ?thesis by (auto simp: process_historical_metrics_def)
  next
    case False
    with that have "metrics_loop (columns df) Map.empty k = Some s"
      by (simp add: process_historical_metrics_def)
    from metrics_loop_origin [OF this] obtain ws where "(k, ws) \<in> set (columns df)" "s = Values ws"
      by auto
    with lens show ?thesis by (auto simp: list_all_iff)
  qed
  show ?thesis
    using len_ts len_vs at_c all_len by (simp add: process_historical_metrics_def)
qed

lemma strftime_200: "strftime 29000 = ''1970-01-01 08:03:20''" by code_simp
lemma strftime_100: "strftime 28900 = ''1970-01-01 08:01:40''" by code_simp

theorem reshaper_sequences_aligned_witness:
  "wf_frame sample_frame \<and>
   process_historical_metrics sample_frame ''temperature'' = Some (Values [7, 5]) \<and>
   process_historical_metrics sample_frame ''timestamps'' =
     Some (Stamps [''1970-01-01 08:03:20'', ''1970-01-01 08:01:40'']) \<and>
   nrows sample_frame = 2"
proof -
  have wf: "wf_frame sample_frame" by (simp add: wf_frame_def nrows_def sample_frame_def)
  have col: "(''temperature'', [7, 5]) \<in> set (columns sample_frame)"
    by (simp add: sample_frame_def)
  have met: "is_metric ''temperature''" by (simp add: is_metric_def)
  have w: "wall_clock (record_date sample_frame) = [29000, 28900]"
    by (simp add: wall_clock_def tz_shift_def sample_frame_def)
  have n: "nrows sample_frame = 2" by (simp add: nrows_def sample_frame_def)
  from reshaper_sequences_aligned [OF wf col met]
  have "process_historical_metrics sample_frame ''timestamps'' =
          Some (Stamps (map strftime (wall_clock (record_date sample_frame))))"
    and "process_historical_metrics sample_frame ''temperature'' = Some (Values [7, 5])"
    by simp_all
  then show ?thesis using wf n by (simp add: w strftime_200 strftime_100)
qed

section \<open>Properties of the normalizer\<close>

text \<open>
  C3, as the code has it. On a Table of timezone-naive timestamps the normalizer succeeds:
  every wall-clock reading is 8 hours later than the UTC reading it came from, the
  instants and the other columns are unchanged. A second application to the converted
  Table shifts nothing: \<open>tz_localize\<close> rejects the aware column and the call raises
  TypeError.
\<close>

theorem normalizer_shifts_once_then_raises:
  assumes naive: "dt_tz (record_date df) = None"
  shows "\<exists>df'. convert_to_china_timezone df = Inr df' \<and>
           wall_clock (record_date df') = map (\<lambda>t. t + 8 * 3600) (wall_clock (record_date df)) \<and>
           dt_stamps (record_date df') = dt_stamps (record_date df) \<and>
           dt_tz (record_date df') = Some Asia_Shanghai \<and>
           columns df' = columns df \<and>
           convert_to_china_timezone df' = Inl TypeError"
  using naive
  by (simp add: convert_to_china_timezone_def tz_localize_def tz_convert_def wall_clock_def
      tz_shift_def)

theorem normalizer_shifts_once_then_raises_witness:
  "dt_tz (record_date naive_frame) = None \<and>
   (\<exists>df'. convert_to_china_timezone naive_frame = Inr df' \<and>
      wall_clock (record_date df') = [29000, 28900] \<and>
      convert_to_china_timezone df' = Inl TypeError)"
proof -
  have n: "dt_tz (record_date naive_frame) = None" by (simp add: naive_frame_def)
  have w: "wall_clock (record_date naive_frame) = [200, 100]"
    by (simp add: naive_frame_def wall_clock_def tz_shift_def)
  from normalizer_shifts_once_then_raises [OF n] obtain df' where
    "convert_to_china_timezone naive_frame = Inr df'"
    "wall_clock (record_date df') = map (\<lambda>t. t + 8 * 3600) (wall_clock (record_date naive_frame))"
    "convert_to_china_timezone df' = Inl TypeError"
    by blast
  then show ?thesis using n by (simp add: w)
qed

text \<open>
  C3 as stated fails: applying the normalizer to the stored sample rows and then to its
  own result ends in TypeError, not in a Table shifted by 16 hours.
\<close>

theorem normalizer_twice_counterexample:
  "(case convert_to_china_timezone naive_frame of
      Inl e \<Rightarrow> Inl e
    | Inr df1 \<Rightarrow> convert_to_china_timezone df1) = Inl TypeError"
  by (simp add: naive_frame_def convert_to_china_timezone_def tz_localize_def tz_convert_def)

section \<open>Properties of the summary aggregator\<close>














section \<open>Properties of the windowed-cache builder\<close>

lemma compress_all_False: "list_all (\<lambda>b. \<not> b) bs \<Longrightarrow> compress bs xs = []"
  by (induction bs xs rule: compress.induct) auto


lemma compress_map_none:
  "list_all (\<lambda>t. \<not> P t) ts \<Longrightarrow> compress (map P ts) xs = []"
  by (rule compress_all_False) (simp add: list_all_iff)




lemma metrics_loop_defined:
  "(metrics_loop cs m k \<noteq> None) = (m k \<noteq> None \<or> (k \<in> fst ` set cs \<and> is_metric k))"
proof (induction cs arbitrary: m)
  case Nil
  show ?case by simp
next
  case (Cons cv cs)
  obtain c vs where cv: "cv = (c, vs)" by (cases cv)
  show ?case
    using Cons.IH [of "if is_metric c then m(c \<mapsto> Values vs) else m"]
    by (auto simp: cv)
qed

lemma dom_process_historical_metrics:
  "dom (process_historical_metrics df) =
     insert ''timestamps'' {c \<in> fst ` set (columns df). is_metric c}"
proof -
  have "(k \<in> dom (process_historical_metrics df)) =
        (k \<in> insert ''timestamps'' {c \<in> fst ` set (columns df). is_metric c})" for k
    using metrics_loop_defined [of "columns df" Map.empty k]
    by (auto simp: process_historical_metrics_def dom_def)
  then show ?thesis by blast
qed

lemma last_window_aware:
  "dt_tz (record_date df) = Some z \<Longrightarrow>
   last_window now delta df =
     Inr (select_rows (map (\<lambda>t. now - delta \<le> t) (dt_stamps (record_date df))) df)"
  by (simp add: last_window_def ge_mask_def)




lemma compress_window_prefix:
  fixes ts :: "int list"
  assumes "sorted_wrt (\<ge>) ts" "c2 \<le> c1"
  shows "prefix (compress (map (\<lambda>t. c1 \<le> t) ts) xs) (compress (map (\<lambda>t. c2 \<le> t) ts) xs)"
  using assms(1)
proof (induction ts arbitrary: xs)
  case Nil
  show ?case by simp
next
  case (Cons t ts)
  show ?case
  proof (cases xs)
    case Nil
    then show ?thesis by simp
  next
    case (Cons x xs')
    from Cons.prems have srt: "sorted_wrt (\<ge>) ts" and le: "\<forall>u\<in>set ts. u \<le> t" by simp_all
    show ?thesis
    proof (cases "c1 \<le> t")
      case True
      with assms(2) have "c2 \<le> t" by simp
      with True Cons.IH [OF srt, of xs'] show ?thesis by (simp add: Cons)
    next
      case False
      with le have "list_all (\<lambda>u. \<not> c1 \<le> u) ts" by (auto simp: list_all_iff)
      then have "compress (map (\<lambda>t. c1 \<le> t) ts) xs' = []" by (rule compress_map_none)
      with False show ?thesis by (simp add: Cons)
    qed
  qed
qed

lemma metrics_loop_prefix:
  assumes "\<And>k s. m1 k = Some s \<Longrightarrow> \<exists>s'. m2 k = Some s' \<and> series_prefix s s'"
    and "\<And>cv. cv \<in> set cs \<Longrightarrow> prefix (f (snd cv)) (g (snd cv))"
    and "metrics_loop (map (\<lambda>cv. (fst cv, f (snd cv))) cs) m1 k = Some s"
  shows "\<exists>s'. metrics_loop (map (\<lambda>cv. (fst cv, g (snd cv))) cs) m2 k = Some s' \<and> series_prefix s s'"
  using assms
proof (induction cs arbitrary: m1 m2)
  case Nil
  then show ?case by simp
next
  case (Cons cv cs)
  obtain c vs where cv: "cv = (c, vs)" by (cases cv)
  let ?m1 = "if is_metric c then m1(c \<mapsto> Values (f vs)) else m1"
  let ?m2 = "if is_metric c then m2(c \<mapsto> Values (g vs)) else m2"
  have pre: "prefix (f vs) (g vs)" using Cons.prems(2) [of cv] by (simp add: cv)
  have rel: "\<exists>s'. ?m2 k = Some s' \<and> series_prefix s s'" if "?m1 k = Some s" for k s
    using that Cons.prems(1) [of k s] pre by (auto split: if_splits)
  have run: "metrics_loop (map (\<lambda>cv. (fst cv, f (snd cv))) cs) ?m1 k = Some s"
    using Cons.prems(3) by (simp add: cv)
  have "\<exists>s'. metrics_loop (map (\<lambda>cv. (fst cv, g (snd cv))) cs) ?m2 k = Some s' \<and> series_prefix s s'"
    by (rule Cons.IH [OF rel _ run]) (use Cons.prems(2) in auto)
  then show ?case by (simp add: cv)
qed

text \<open>
  C9. For a normalized Table sorted descending by timestamp and one reading of the clock,
  every row the 24-hour comparison selects is selected by the 30-day comparison, the two
  outputs have the same keys, and under every key the sequence of the hour-24 output is an
  initial segment of the sequence of the day-30 output (the \<open>timestamps\<close> key included).
\<close>

theorem window_24h_prefix_of_30d:
  assumes srt: "sorted_wrt (\<ge>) (dt_stamps (record_date df))"
    and aware: "dt_tz (record_date df) = Some z"
  shows "\<exists>h d sel24 sel30.
           process_cached_data w df = Inr (h, d) \<and>
           ge_mask (clock w - 24 * 3600) (record_date df) = Inr sel24 \<and>
           ge_mask (clock w - 30 * 86400) (record_date df) = Inr sel30 \<and>
           list_all2 (\<lambda>a b. a \<longrightarrow> b) sel24 sel30 \<and>
           dom h = dom d \<and>
           (\<forall>k s. h k = Some s \<longrightarrow> (\<exists>s'. d k = Some s' \<and> series_prefix s s'))"
proof -
  let ?ts = "dt_stamps (record_date df)"
  let ?c24 = "clock w - 24 * 3600" and ?c30 = "clock w - 30 * 86400"
  let ?s24 = "map (\<lambda>t. ?c24 \<le> t) ?ts" and ?s30 = "map (\<lambda>t. ?c30 \<le> t) ?ts"
  let ?h = "process_historical_metrics (select_rows ?s24 df)"
  let ?d = "process_historical_metrics (select_rows ?s30 df)"
  have le: "?c30 \<le> ?c24" by simp
  have run: "process_cached_data w df = Inr (?h, ?d)"
    using last_window_aware [OF aware]
    by (simp add: process_cached_data_def timestamp_now_def Let_def)
  have m24: "ge_mask ?c24 (record_date df) = Inr ?s24"
    and m30: "ge_mask ?c30 (record_date df) = Inr ?s30"
    using aware by (simp_all add: ge_mask_def)
  have sub: "list_all2 (\<lambda>a b. a \<longrightarrow> b) ?s24 ?s30"
    by (simp add: list_all2_conv_all_nth)
  have doms: "dom ?h = dom ?d"
    by (simp add: dom_process_historical_metrics select_rows_def image_image)
  have pre: "\<exists>s'. ?d k = Some s' \<and> series_prefix s s'" if hk: "?h k = Some s" for k s
  proof (cases "k = ''timestamps''")
    case True
    have "prefix (compress ?s24 ?ts) (compress ?s30 ?ts)"
      using srt le by (rule compress_window_prefix)
    then have "prefix (map strftime (wall_clock (record_date (select_rows ?s24 df))))
                      (map strftime (wall_clock (record_date (select_rows ?s30 df))))"
      by (simp add: wall_clock_def select_rows_def map_mono_prefix)
    with True hk show ?thesis by (auto simp: process_historical_metrics_def)
  next
    case False
    with hk have "metrics_loop (map (\<lambda>cv. (fst cv, compress ?s24 (snd cv))) (columns df)) Map.empty k = Some s"
      by (simp add: process_historical_metrics_def select_rows_def)
    then have "\<exists>s'. metrics_loop (map (\<lambda>cv. (fst cv, compress ?s30 (snd cv))) (columns df)) Map.empty k = Some s'
                 \<and> series_prefix s s'"
    proof (rule metrics_loop_prefix [rotated 2])
      fix k s assume "Map.empty k = Some (s :: series)"
      then show "\<exists>s'. Map.empty k = Some s' \<and> series_prefix s s'" by simp
    next
      fix cv :: "string \<times> rat list"
      show "prefix (compress ?s24 (snd cv)) (compress ?s30 (snd cv))"
        using srt le by (rule compress_window_prefix)
    qed
    with False show ?thesis by (simp add: process_historical_metrics_def select_rows_def)
  qed
  from run m24 m30 sub doms pre show ?thesis by blast
qed


theorem window_24h_prefix_of_30d_witness:
  "sorted_wrt (\<ge>) (dt_stamps (record_date sample_frame)) \<and>
   dt_tz (record_date sample_frame) = Some Asia_Shanghai \<and>
   (\<exists>h d. process_cached_data sample_world sample_frame = Inr (h, d) \<and>
      dom h = dom d \<and>
      h ''temperature'' = Some (Values [7]) \<and>
      (\<exists>s'. d ''temperature'' = Some s' \<and> series_prefix (Values [7]) s'))"
proof -
  have srt: "sorted_wrt (\<ge>) (dt_stamps (record_date sample_frame))"
    by (simp add: sample_frame_def)
  have aware: "dt_tz (record_date sample_frame) = Some Asia_Shanghai"
    by (simp add: sample_frame_def)
  from window_24h_prefix_of_30d [OF srt aware, of sample_world]
  obtain h d where run: "process_cached_data sample_world sample_frame = Inr (h, d)"
    and doms: "dom h = dom d"
    and pre: "\<forall>k s. h k = Some s \<longrightarrow> (\<exists>s'. d k = Some s' \<and> series_prefix s s')"
    by blast
  have "(case process_cached_data sample_world sample_frame of
           Inl e \<Rightarrow> None | Inr res \<Rightarrow> fst res ''temperature'') = Some (Values [7])"
    by (simp add: process_cached_data_def timestamp_now_def last_window_def ge_mask_def
        select_rows_def sample_frame_def sample_world_def process_historical_metrics_def
        is_metric_def Let_def)
  with run have h7: "h ''temperature'' = Some (Values [7])" by simp
  with pre have "\<exists>s'. d ''temperature'' = Some s' \<and> series_prefix (Values [7]) s'" by blast
  with srt aware run doms h7 show ?thesis by blast
qed

section \<open>The end-to-end scenario\<close>

lemma scenario_stamps:
  "datetime 2024 1 1 0 0 0 = 1704067200"
  "datetime 2024 1 1 12 0 0 = 1704110400"
  "datetime 2024 1 2 0 0 0 = 1704153600"
  by code_simp+

lemma scenario_order: "order_desc [1704067200, 1704110400, 1704153600] = [2, 1, 0]"
  by code_simp

lemma scenario_strftime: "strftime (1704153600 + 8 * 3600) = ''2024-01-02 08:00:00''"
  by code_simp

lemma read_sql_all_ordered:
  "conn w = Opened \<Longrightarrow> db_table w = Some t \<Longrightarrow>
   read_sql_all w = (Inr (order_by_record_date_desc t), w)"
  by (simp add: read_sql_all_def read_sql_def order_by_record_date_desc_def)

lemma scenario_rows:
  "order_by_record_date_desc scenario_table =
     \<lparr>record_date = \<lparr>dt_tz = None, dt_stamps = [1704153600, 1704110400, 1704067200]\<rparr>,
      columns = [(''ID'', [3, 2, 1]), (''value'', [30, 20, 10])]\<rparr>"
proof -
  have "dt_stamps (record_date scenario_table) = [1704067200, 1704110400, 1704153600]"
    by (simp add: scenario_table_def scenario_stamps)
  then have "order_by_record_date_desc scenario_table = take_rows [2, 1, 0] scenario_table"
    by (simp only: order_by_record_date_desc_def scenario_order)
  also have "\<dots> = \<lparr>record_date = \<lparr>dt_tz = None, dt_stamps = [1704153600, 1704110400, 1704067200]\<rparr>,
      columns = [(''ID'', [3, 2, 1]), (''value'', [30, 20, 10])]\<rparr>"
    by (simp add: take_rows_def scenario_table_def scenario_stamps)
  finally show ?thesis .
qed

text \<open>
  C5. For the three stored rows of the scenario, normalization followed by a descending
  sort gives a Table whose latest record has \<open>value = 30\<close> and \<open>record_date\<close> equal to the
  string \<open>2024-01-02 08:00:00\<close>; the job itself, which sorts in the query and normalizes
  afterwards, extracts the same record.
\<close>

theorem scenario_latest_record:
  "(\<exists>df r. convert_to_china_timezone scenario_table = Inr df \<and>
      process_latest_data (order_by_record_date_desc df) = Inr r \<and>
      r ''value'' = Some (Num 30) \<and>
      r ''record_date'' = Some (Str ''2024-01-02 08:00:00'')) \<and>
   (\<exists>df w r. fetch_data (sample_world\<lparr>db_table := Some scenario_table\<rparr>) = (Inr df, w) \<and>
      process_latest_data df = Inr r \<and>
      r ''value'' = Some (Num 30) \<and>
      r ''record_date'' = Some (Str ''2024-01-02 08:00:00''))"
proof (intro conjI)
  let ?conv = "\<lparr>record_date = \<lparr>dt_tz = Some Asia_Shanghai,
                   dt_stamps = [1704067200, 1704110400, 1704153600]\<rparr>,
                 columns = [(''ID'', [1, 2, 3]), (''value'', [10, 20, 30])]\<rparr>"
  let ?sorted = "\<lparr>record_date = \<lparr>dt_tz = Some Asia_Shanghai,
                   dt_stamps = [1704153600, 1704110400, 1704067200]\<rparr>,
                 columns = [(''ID'', [3, 2, 1]), (''value'', [30, 20, 10])]\<rparr>"
  let ?r = "[''ID'' \<mapsto> Num 3, ''value'' \<mapsto> Num 30,
             ''record_date'' \<mapsto> Str ''2024-01-02 08:00:00'']"
  have conv: "convert_to_china_timezone scenario_table = Inr ?conv"
    by (simp add: convert_to_china_timezone_def tz_localize_def tz_convert_def
        scenario_table_def scenario_stamps)
  have ord: "order_by_record_date_desc ?conv = ?sorted"
    by (simp add: order_by_record_date_desc_def scenario_order take_rows_def)
  have latest: "process_latest_data ?sorted = Inr ?r"
    using scenario_strftime
    by (simp add: process_latest_data_def iloc0_def nrows_def row_dict_at_def wall_clock_def
        tz_shift_def fun_upd_twist)
  show "\<exists>df r. convert_to_china_timezone scenario_table = Inr df \<and>
      process_latest_data (order_by_record_date_desc df) = Inr r \<and>
      r ''value'' = Some (Num 30) \<and>
      r ''record_date'' = Some (Str ''2024-01-02 08:00:00'')"
    using conv ord latest by simp
  have conv2: "convert_to_china_timezone (order_by_record_date_desc scenario_table) = Inr ?sorted"
    unfolding scenario_rows
    by (simp add: convert_to_china_timezone_def tz_localize_def tz_convert_def)
  let ?w1 = "sample_world\<lparr>db_table := Some scenario_table, conn := Opened\<rparr>"
  have conn: "connect_to_database (sample_world\<lparr>db_table := Some scenario_table\<rparr>) = (Inr (), ?w1)"
    by (simp add: connect_to_database_def sample_world_def)
  have rd: "read_sql_all ?w1 = (Inr (order_by_record_date_desc scenario_table), ?w1)"
    by (rule read_sql_all_ordered) simp_all
  have fetch: "fetch_data (sample_world\<lparr>db_table := Some scenario_table\<rparr>) =
      (Inr ?sorted, sample_world\<lparr>db_table := Some scenario_table, conn := Closed\<rparr>)"
    by (simp add: fetch_data_def conn rd bind_io_def lift_io_def conv2 connection_close_def)
  show "\<exists>df w r. fetch_data (sample_world\<lparr>db_table := Some scenario_table\<rparr>) = (Inr df, w) \<and>
      process_latest_data df = Inr r \<and>
      r ''value'' = Some (Num 30) \<and>
      r ''record_date'' = Some (Str ''2024-01-02 08:00:00'')"
    using fetch latest by simp
qed

section \<open>What the windowed-cache builder depends on\<close>

lemma compress_map_filter: "compress (map P ts) ts = filter P ts"
  by (induction ts) auto

lemma window_count_mono:
  fixes ts :: "int list"
  shows "c' \<le> c \<Longrightarrow> length (filter (\<lambda>t. c \<le> t) ts) \<le> length (filter (\<lambda>t. c' \<le> t) ts)"
  by (induction ts) auto

lemma same_count_same_rows:
  fixes ts :: "int list"
  assumes "c' \<le> c"
    and "length (filter (\<lambda>t. c \<le> t) ts) = length (filter (\<lambda>t. c' \<le> t) ts)"
  shows "map (\<lambda>t. c \<le> t) ts = map (\<lambda>t. c' \<le> t) ts"
  using assms(2)
proof (induction ts)
  case Nil
  show ?case by simp
next
  case (Cons t ts)
  have mono: "length (filter (\<lambda>t. c \<le> t) ts) \<le> length (filter (\<lambda>t. c' \<le> t) ts)"
    using assms(1) by (rule window_count_mono)
  show ?case
  proof (cases "c \<le> t")
    case True
    with assms(1) have t': "c' \<le> t" by simp
    from Cons.prems True t'
    have "length (filter (\<lambda>t. c \<le> t) ts) = length (filter (\<lambda>t. c' \<le> t) ts)" by simp
    then have "map (\<lambda>t. c \<le> t) ts = map (\<lambda>t. c' \<le> t) ts" by (rule Cons.IH)
    with True t' show ?thesis by simp
  next
    case False
    show ?thesis
    proof (cases "c' \<le> t")
      case True
      from Cons.prems False True
      have "length (filter (\<lambda>t. c \<le> t) ts) = Suc (length (filter (\<lambda>t. c' \<le> t) ts))" by simp
      with mono have False by simp
      then show ?thesis ..
    next
      case nle: False
      from Cons.prems False nle
      have "length (filter (\<lambda>t. c \<le> t) ts) = length (filter (\<lambda>t. c' \<le> t) ts)" by simp
      then have "map (\<lambda>t. c \<le> t) ts = map (\<lambda>t. c' \<le> t) ts" by (rule Cons.IH)
      with False nle show ?thesis by simp
    qed
  qed
qed

lemma same_count_same_rows_any:
  fixes ts :: "int list"
  assumes "length (filter (\<lambda>t. c \<le> t) ts) = length (filter (\<lambda>t. c' \<le> t) ts)"
  shows "map (\<lambda>t. c \<le> t) ts = map (\<lambda>t. c' \<le> t) ts"
proof (cases "c' \<le> c")
  case True
  then show ?thesis using assms by (rule same_count_same_rows)
next
  case False
  then have "c \<le> c'" by simp
  then have "map (\<lambda>t. c' \<le> t) ts = map (\<lambda>t. c \<le> t) ts"
    using assms [symmetric] by (rule same_count_same_rows)
  then show ?thesis by simp
qed

lemma window_stamps_length:
  "process_historical_metrics (select_rows (map P (dt_stamps (record_date df))) df) ''timestamps'' =
     Some (Stamps xs) \<Longrightarrow>
   length xs = length (filter P (dt_stamps (record_date df)))"
  by (auto simp: process_historical_metrics_def select_rows_def wall_clock_def compress_map_filter)

lemma same_window_output_same_rows:
  assumes "process_historical_metrics
             (select_rows (map (\<lambda>t. c \<le> t) (dt_stamps (record_date df))) df) =
           process_historical_metrics
             (select_rows (map (\<lambda>t. c' \<le> t) (dt_stamps (record_date df))) df)"
  shows "map (\<lambda>t. c \<le> t) (dt_stamps (record_date df)) =
         map (\<lambda>t. c' \<le> t) (dt_stamps (record_date df))"
proof -
  let ?ts = "dt_stamps (record_date df)"
  let ?a = "process_historical_metrics (select_rows (map (\<lambda>t. c \<le> t) ?ts) df)"
  let ?b = "process_historical_metrics (select_rows (map (\<lambda>t. c' \<le> t) ?ts) df)"
  obtain xs where a: "?a ''timestamps'' = Some (Stamps xs)"
    by (simp add: process_historical_metrics_def)
  with assms have b: "?b ''timestamps'' = Some (Stamps xs)" by simp
  from window_stamps_length [OF a] window_stamps_length [OF b]
  have "length (filter (\<lambda>t. c \<le> t) ?ts) = length (filter (\<lambda>t. c' \<le> t) ?ts)" by simp
  then show ?thesis by (rule same_count_same_rows_any)
qed

text \<open>
  C8, as the code has it. The windowed-cache builder takes only the Table: it reads the
  clock itself and its two durations are fixed. Its output is determined by the Table and
  the reading of the clock, whatever the rest of the world is; and on a normalized Table two
  readings give equal outputs exactly when each of the two comparisons
  (\<open>record_date >= now - 24 h\<close>, \<open>record_date >= now - 30 d\<close>) selects the same rows at both.
\<close>

theorem cached_data_equal_iff_same_rows:
  "(clock w = clock w' \<longrightarrow> process_cached_data w df = process_cached_data w' df) \<and>
   (dt_tz (record_date df) = Some z \<longrightarrow>
      (process_cached_data w df = process_cached_data w' df) =
      (ge_mask (clock w - 24 * 3600) (record_date df) =
         ge_mask (clock w' - 24 * 3600) (record_date df) \<and>
       ge_mask (clock w - 30 * 86400) (record_date df) =
         ge_mask (clock w' - 30 * 86400) (record_date df)))"
proof (intro conjI impI)
  assume "clock w = clock w'"
  then show "process_cached_data w df = process_cached_data w' df"
    by (simp add: process_cached_data_def timestamp_now_def)
next
  assume aware: "dt_tz (record_date df) = Some z"
  let ?ts = "dt_stamps (record_date df)"
  let ?out = "\<lambda>c. process_historical_metrics (select_rows (map (\<lambda>t. c \<le> t) ?ts) df)"
  have run: "process_cached_data v df = Inr (?out (clock v - 24 * 3600), ?out (clock v - 30 * 86400))"
    for v
    using last_window_aware [OF aware]
    by (simp add: process_cached_data_def timestamp_now_def Let_def)
  have sel: "ge_mask c (record_date df) = Inr (map (\<lambda>t. c \<le> t) ?ts)" for c
    using aware by (simp add: ge_mask_def)
  show "(process_cached_data w df = process_cached_data w' df) =
      (ge_mask (clock w - 24 * 3600) (record_date df) =
         ge_mask (clock w' - 24 * 3600) (record_date df) \<and>
       ge_mask (clock w - 30 * 86400) (record_date df) =
         ge_mask (clock w' - 30 * 86400) (record_date df))"
  proof
    assume "process_cached_data w df = process_cached_data w' df"
    then have o24: "?out (clock w - 24 * 3600) = ?out (clock w' - 24 * 3600)"
      and o30: "?out (clock w - 30 * 86400) = ?out (clock w' - 30 * 86400)"
      by (simp_all only: run sum.inject prod.inject)
    have "map (\<lambda>t. clock w - 24 * 3600 \<le> t) ?ts = map (\<lambda>t. clock w' - 24 * 3600 \<le> t) ?ts"
      using o24 by (rule same_window_output_same_rows)
    moreover
    have "map (\<lambda>t. clock w - 30 * 86400 \<le> t) ?ts = map (\<lambda>t. clock w' - 30 * 86400 \<le> t) ?ts"
      using o30 by (rule same_window_output_same_rows)
    ultimately show "ge_mask (clock w - 24 * 3600) (record_date df) =
         ge_mask (clock w' - 24 * 3600) (record_date df) \<and>
       ge_mask (clock w - 30 * 86400) (record_date df) =
         ge_mask (clock w' - 30 * 86400) (record_date df)"
      by (simp only: sel)
  next
    assume "ge_mask (clock w - 24 * 3600) (record_date df) =
         ge_mask (clock w' - 24 * 3600) (record_date df) \<and>
       ge_mask (clock w - 30 * 86400) (record_date df) =
         ge_mask (clock w' - 30 * 86400) (record_date df)"
    then have "map (\<lambda>t. clock w - 24 * 3600 \<le> t) ?ts = map (\<lambda>t. clock w' - 24 * 3600 \<le> t) ?ts"
      and "map (\<lambda>t. clock w - 30 * 86400 \<le> t) ?ts = map (\<lambda>t. clock w' - 30 * 86400 \<le> t) ?ts"
      by (simp_all only: sel sum.inject)
    then show "process_cached_data w df = process_cached_data w' df"
      by (simp only: run)
  qed
qed

theorem cached_data_equal_iff_same_rows_witness:
  "clock sample_world = clock (sample_world\<lparr>conn := Closed\<rparr>) \<and>
   process_cached_data sample_world sample_frame =
     process_cached_data (sample_world\<lparr>conn := Closed\<rparr>) sample_frame \<and>
   dt_tz (record_date sample_frame) = Some Asia_Shanghai \<and>
   ge_mask (clock sample_world - 24 * 3600) (record_date sample_frame) =
     ge_mask (clock (sample_world\<lparr>clock := 86551\<rparr>) - 24 * 3600) (record_date sample_frame) \<and>
   ge_mask (clock sample_world - 30 * 86400) (record_date sample_frame) =
     ge_mask (clock (sample_world\<lparr>clock := 86551\<rparr>) - 30 * 86400) (record_date sample_frame) \<and>
   process_cached_data sample_world sample_frame =
     process_cached_data (sample_world\<lparr>clock := 86551\<rparr>) sample_frame"
proof -
  have c: "clock sample_world = clock (sample_world\<lparr>conn := Closed\<rparr>)" by simp
  have aware: "dt_tz (record_date sample_frame) = Some Asia_Shanghai"
    by (simp add: sample_frame_def)
  have m1: "ge_mask (clock sample_world - 24 * 3600) (record_date sample_frame) =
      ge_mask (clock (sample_world\<lparr>clock := 86551\<rparr>) - 24 * 3600) (record_date sample_frame)"
    by (simp add: ge_mask_def sample_frame_def sample_world_def)
  have m2: "ge_mask (clock sample_world - 30 * 86400) (record_date sample_frame) =
      ge_mask (clock (sample_world\<lparr>clock := 86551\<rparr>) - 30 * 86400) (record_date sample_frame)"
    by (simp add: ge_mask_def sample_frame_def sample_world_def)
  have "clock sample_world = clock (sample_world\<lparr>conn := Closed\<rparr>) \<longrightarrow>
      process_cached_data sample_world sample_frame =
      process_cached_data (sample_world\<lparr>conn := Closed\<rparr>) sample_frame"
    using cached_data_equal_iff_same_rows
      [of sample_world "sample_world\<lparr>conn := Closed\<rparr>" sample_frame]
    by (rule conjunct1)
  from this c have e1: "process_cached_data sample_world sample_frame =
     process_cached_data (sample_world\<lparr>conn := Closed\<rparr>) sample_frame"
    by (rule mp)
  have "dt_tz (record_date sample_frame) = Some Asia_Shanghai \<longrightarrow>
      (process_cached_data sample_world sample_frame =
         process_cached_data (sample_world\<lparr>clock := 86551\<rparr>) sample_frame) =
      (ge_mask (clock sample_world - 24 * 3600) (record_date sample_frame) =
         ge_mask (clock (sample_world\<lparr>clock := 86551\<rparr>) - 24 * 3600) (record_date sample_frame) \<and>
       ge_mask (clock sample_world - 30 * 86400) (record_date sample_frame) =
         ge_mask (clock (sample_world\<lparr>clock := 86551\<rparr>) - 30 * 86400) (record_date sample_frame))"
    using cached_data_equal_iff_same_rows
      [of sample_world "sample_world\<lparr>clock := 86551\<rparr>" sample_frame Asia_Shanghai]
    by (rule conjunct2)
  from this aware have "(process_cached_data sample_world sample_frame =
         process_cached_data (sample_world\<lparr>clock := 86551\<rparr>) sample_frame) =
      (ge_mask (clock sample_world - 24 * 3600) (record_date sample_frame) =
         ge_mask (clock (sample_world\<lparr>clock := 86551\<rparr>) - 24 * 3600) (record_date sample_frame) \<and>
       ge_mask (clock sample_world - 30 * 86400) (record_date sample_frame) =
         ge_mask (clock (sample_world\<lparr>clock := 86551\<rparr>) - 30 * 86400) (record_date sample_frame))"
    by (rule mp)
  then have e2: "process_cached_data sample_world sample_frame =
     process_cached_data (sample_world\<lparr>clock := 86551\<rparr>) sample_frame"
    using conjI [OF m1 m2] by (rule iffD2)
  show ?thesis by (intro conjI c e1 aware m1 m2 e2)
qed

text \<open>
  C8 as stated fails for the windowed-cache builder: applied to the same Table at two
  moments, it gives different outputs.
\<close>

theorem cached_data_two_moments_counterexample:
  "process_cached_data sample_world sample_frame \<noteq>
   process_cached_data (sample_world\<lparr>clock := 1000\<rparr>) sample_frame"
proof
  assume eq: "process_cached_data sample_world sample_frame =
    process_cached_data (sample_world\<lparr>clock := 1000\<rparr>) sample_frame"
  have a: "(case process_cached_data sample_world sample_frame of
           Inl e \<Rightarrow> None | Inr res \<Rightarrow> fst res ''temperature'') = Some (Values [7])"
    by (simp add: process_cached_data_def timestamp_now_def last_window_def ge_mask_def
        select_rows_def sample_frame_def sample_world_def process_historical_metrics_def
        is_metric_def Let_def)
  have b: "(case process_cached_data (sample_world\<lparr>clock := 1000\<rparr>) sample_frame of
           Inl e \<Rightarrow> None | Inr res \<Rightarrow> fst res ''temperature'') = Some (Values [7, 5])"
    by (simp add: process_cached_data_def timestamp_now_def last_window_def ge_mask_def
        select_rows_def sample_frame_def sample_world_def process_historical_metrics_def
        is_metric_def Let_def)
  from a b eq show False by simp
qed

section \<open>Properties of the writer and of the jobs\<close>



















subsection \<open>The connection\<close>

text \<open>
  In the full-history job every step after \<open>fetch_data\<close> leaves the connection alone, and
  \<open>fetch_data\<close> has closed it by then, whatever happened to the query.
\<close>

lemma bind_io_conn:
  assumes "\<And>w. conn (snd (m w)) = conn w" and "\<And>x w. conn (snd (f x w)) = conn w"
  shows "conn (snd (bind_io m f w)) = conn w"
proof (cases "m w")
  case (Pair r w')
  with assms(1) [of w] have c: "conn w' = conn w" by simp
  show ?thesis
  proof (cases r)
    case (Inl e)
    with Pair c show ?thesis by (simp add: bind_io_def)
  next
    case (Inr x)
    with Pair c assms(2) [of x w'] show ?thesis by (simp add: bind_io_def)
  qed
qed

lemma lift_io_conn: "conn (snd (lift_io r w)) = conn w"
  by (simp add: lift_io_def)

lemma makedirs_conn: "conn (snd (makedirs p w)) = conn w"
  by (simp add: makedirs_def)

lemma save_json_conn: "conn (snd (save_json payload p w)) = conn w"
  by (simp add: save_json_def write_json_def)

lemma fetch_data_closes:
  "db_reachable w \<Longrightarrow> conn (snd (fetch_data w)) = Closed"
  by (simp add: fetch_data_def connect_to_database_def connection_close_def split: prod.splits)

lemma main_update_closes_connection:
  assumes "db_reachable w"
  shows "conn (snd (main_update ops w)) = Closed"
proof (cases "fetch_data w")
  case (Pair r w1)
  with fetch_data_closes [OF assms] have c: "conn w1 = Closed" by simp
  show ?thesis
  proof (cases r)
    case (Inl e)
    with Pair c show ?thesis by (simp add: main_update_def bind_io_def)
  next
    case (Inr df)
    have "conn (snd (main_update ops w)) = conn w1"
      unfolding main_update_def
      apply (subst bind_io_def)
      apply (simp only: Pair Inr prod.case sum.case)
      apply (intro bind_io_conn lift_io_conn makedirs_conn save_json_conn)
      apply simp
      done
    with c show ?thesis by simp
  qed
qed

text \<open>
  In the latest-only job a run that connected and then raised, at whatever step, ends with
  the connection open.
\<close>

lemma main_collect_failure_leaves_open:
  assumes "db_reachable w" and "fst (main_collect w) = Inl e"
  shows "conn (snd (main_collect w)) = Opened"
  using assms
  by (auto simp: main_collect_def bind_io_def get_database_connection_def read_sql_limit_1_def
      read_sql_def lift_io_def write_json_def connection_close_def Let_def
      split: sum.splits prod.splits option.splits if_splits)

lemma sample_order: "order_desc [200, 100] = [0, 1]"
  by code_simp

text \<open>
  C6 fails in the latest-only job. With a reachable database, a run in a working
  directory without \<open>data/\<close> ends with FileNotFoundError and a run against a database
  without the table ends with DatabaseError; both leave the connection open, since
  \<open>conn.close()\<close> is reached only when every step before it returned. A run in which
  nothing fails does close it.
\<close>

theorem collect_job_leaves_connection_open:
  "main_collect sample_world = (Inl FileNotFoundError, sample_world\<lparr>conn := Opened\<rparr>) \<and>
   main_collect (sample_world\<lparr>db_table := None\<rparr>) =
     (Inl DatabaseError, sample_world\<lparr>db_table := None, conn := Opened\<rparr>) \<and>
   conn (snd (main_collect (sample_world\<lparr>dirs := {[''data'']}\<rparr>))) = Closed"
  by (simp add: main_collect_def bind_io_def get_database_connection_def read_sql_limit_1_def
      read_sql_def lift_io_def first_item_def to_dict_records_def write_json_def dir_exists_def
      connection_close_def sample_world_def naive_frame_def take_rows_def nrows_def Let_def
      sample_order)

end
